theory Spec2Isabelle
  imports Main
begin

section \<open>Errors\<close>

text \<open>
  Go errors are values. The code under study builds them with \<^verbatim>\<open>errors.New\<close> and
  \<^verbatim>\<open>fmt.Errorf\<close>; a format that ends in \<^verbatim>\<open>%w\<close> keeps the wrapped error reachable
  through \<^verbatim>\<open>Unwrap\<close>. \<open>Canceled\<close> is \<^verbatim>\<open>context.Canceled\<close>, and \<open>PermanentError\<close> is
  the wrapper that \<^verbatim>\<open>backoff.Permanent\<close> puts around an error that must not be retried.
\<close>

datatype error =
    New string
  | Wrapf string error
  | Canceled
  | PermanentError error

fun Error :: "error \<Rightarrow> string" where
  "Error (New s) = s"
| "Error (Wrapf prefix e) = prefix @ Error e"
| "Error Canceled = ''context canceled''"
| "Error (PermanentError e) = Error e"

fun Unwrap :: "error \<Rightarrow> error option" where
  "Unwrap (Wrapf prefix e) = Some e"
| "Unwrap (PermanentError e) = Some e"
| "Unwrap (New s) = None"
| "Unwrap Canceled = None"

text \<open>
  \<^verbatim>\<open>errors.As(err, &permanent)\<close>: the first \<open>PermanentError\<close> on the chain of wrapped
  errors, if there is one; the result is the error it carries.
\<close>

fun asPermanent :: "error \<Rightarrow> error option" where
  "asPermanent (PermanentError e) = Some e"
| "asPermanent (Wrapf prefix e) = asPermanent e"
| "asPermanent (New s) = None"
| "asPermanent Canceled = None"

section \<open>Codespace records and the readiness predicate\<close>

text \<open>
  \<^verbatim>\<open>internal/codespaces/codespaces.go\<close> reads an \<^verbatim>\<open>api.Codespace\<close> through its
  \<^verbatim>\<open>Name\<close>, its \<^verbatim>\<open>State\<close> (a string) and its \<^verbatim>\<open>Connection\<close>, whose fields are
  strings and a list of host keys. Only the fields that the code touches are kept.
\<close>

record CodespaceConnection =
  SessionID :: string
  SessionToken :: string
  RelayEndpoint :: string
  RelaySAS :: string
  HostPublicKeys :: "string list"

record Codespace =
  Name :: string
  State :: string
  Connection :: CodespaceConnection

text \<open>
  Modelled from the spec: the constant \<^verbatim>\<open>api.CodespaceStateAvailable\<close> is declared in the
  \<^verbatim>\<open>api\<close> package, outside the files verified here; the specification names the
  state Available.
\<close>

definition CodespaceStateAvailable :: string where
  "CodespaceStateAvailable = ''Available''"

definition connectionReady :: "Codespace \<Rightarrow> bool" where
  "connectionReady codespace \<longleftrightarrow>
     SessionID (Connection codespace) \<noteq> '''' \<and>
     SessionToken (Connection codespace) \<noteq> '''' \<and>
     RelayEndpoint (Connection codespace) \<noteq> '''' \<and>
     RelaySAS (Connection codespace) \<noteq> '''' \<and>
     State codespace = CodespaceStateAvailable"

section \<open>The world around \<^verbatim>\<open>ConnectToLiveshare\<close>\<close>

text \<open>
  \<^verbatim>\<open>ConnectToLiveshare\<close> talks to an API client, a progress indicator, the Live Share
  library, the clock and the caller's context. The world records what can be observed
  of them: the time in nanoseconds, the instant at which the caller cancels the context
  (if ever), the calls received by the API client and by the progress indicator, in
  order.
\<close>

datatype api_call = StartCodespaceCall string | GetCodespaceCall string bool

datatype progress_call = StartProgressIndicatorWithLabel string | StopProgressIndicator

record world =
  now :: nat
  cancelAt :: "nat option"
  apiCalls :: "api_call list"
  progressCalls :: "progress_call list"

text \<open>\<^verbatim>\<open>liveshare.Options\<close>, as filled in by \<^verbatim>\<open>ConnectToLiveshare\<close>.\<close>

record 'l Options =
  SessionID_opt :: string
  SessionToken_opt :: string
  RelaySAS_opt :: string
  RelayEndpoint_opt :: string
  HostPublicKeys_opt :: "string list"
  Logger_opt :: 'l

text \<open>
  The collaborators are parameters. Each API method answers from the world it is called
  in (so an answer may depend on the time, on the context and on the earlier calls) and
  says how long the call took. \<open>liveshareConnect\<close> is \<^verbatim>\<open>liveshare.Connect\<close>, with
  sessions of type \<open>'s\<close>. \<open>jitter\<close> is the source of randomness of the back-off policy:
  \<open>jitter k\<close> decides the \<open>k\<close>-th interval that the policy draws. \<open>selectsContext\<close>
  is the choice of a \<^verbatim>\<open>select\<close> whose two channels are ready at the same instant
  \<open>t\<close>: whether it takes \<^verbatim>\<open>ctx.Done()\<close>.
\<close>

record ('s, 'l) collaborators =
  StartCodespace :: "world \<Rightarrow> string \<Rightarrow> error option \<times> nat"
  GetCodespace :: "world \<Rightarrow> string \<Rightarrow> bool \<Rightarrow> (error + Codespace) \<times> nat"
  liveshareConnect :: "world \<Rightarrow> 'l Options \<Rightarrow> (error + 's) \<times> nat"
  jitter :: "nat \<Rightarrow> nat"
  selectsContext :: "nat \<Rightarrow> bool"

definition callStartCodespace ::
  "('s, 'l) collaborators \<Rightarrow> world \<Rightarrow> string \<Rightarrow> error option \<times> world" where
  "callStartCodespace c w name =
     (case StartCodespace c w name of
        (r, d) \<Rightarrow> (r, w\<lparr>now := now w + d, apiCalls := apiCalls w @ [StartCodespaceCall name]\<rparr>))"

definition callGetCodespace ::
  "('s, 'l) collaborators \<Rightarrow> world \<Rightarrow> string \<Rightarrow> bool \<Rightarrow> (error + Codespace) \<times> world" where
  "callGetCodespace c w name includeConnection =
     (case GetCodespace c w name includeConnection of
        (r, d) \<Rightarrow> (r, w\<lparr>now := now w + d,
                        apiCalls := apiCalls w @ [GetCodespaceCall name includeConnection]\<rparr>))"

definition callConnect ::
  "('s, 'l) collaborators \<Rightarrow> world \<Rightarrow> 'l Options \<Rightarrow> (error + 's) \<times> world" where
  "callConnect c w opts =
     (case liveshareConnect c w opts of (r, d) \<Rightarrow> (r, w\<lparr>now := now w + d\<rparr>))"

definition progressStart :: "string \<Rightarrow> world \<Rightarrow> world" where
  "progressStart label w =
     w\<lparr>progressCalls := progressCalls w @ [StartProgressIndicatorWithLabel label]\<rparr>"

text \<open>
  A \<^verbatim>\<open>defer progress.StopProgressIndicator()\<close> runs when the function returns, also when
  it was registered inside the \<^verbatim>\<open>if\<close> block; \<open>runDeferred n\<close> runs the \<open>n\<close> calls
  registered so far.
\<close>

definition runDeferred :: "nat \<Rightarrow> world \<Rightarrow> world" where
  "runDeferred n w = w\<lparr>progressCalls := progressCalls w @ replicate n StopProgressIndicator\<rparr>"

text \<open>\<^verbatim>\<open>ctx.Done()\<close> is closed from the instant of cancellation on.\<close>

definition ctxDone :: "world \<Rightarrow> bool" where
  "ctxDone w = (case cancelAt w of None \<Rightarrow> False | Some t \<Rightarrow> t \<le> now w)"

section \<open>The back-off policy and the retry loop\<close>

text \<open>
  \<^verbatim>\<open>backoff.NewExponentialBackOff\<close>, \<^verbatim>\<open>backoff.WithContext\<close> and \<^verbatim>\<open>backoff.Retry\<close> belong
  to the library \<^verbatim>\<open>github.com/cenkalti/backoff/v4\<close>. The definitions of this section
  follow the library as \<^verbatim>\<open>ConnectToLiveshare\<close> configures it:
  \<^item> the current interval starts at 500 ms and grows with every draw by the factor 1.1
    up to 10 s;
  \<^item> an interval is drawn at random around the current one: with the library's
    randomization factor 0.5, between half of it and one and a half times it. The
    random numbers are a parameter, \<open>rnd k\<close> for the \<open>k\<close>-th draw since the reset;
  \<^item> the policy gives up (\<^verbatim>\<open>backoff.Stop\<close>, here \<open>None\<close>) when the time elapsed since its
    start plus the interval it has just drawn exceeds \<^verbatim>\<open>MaxElapsedTime\<close>, five minutes;
  \<^item> wrapped by \<^verbatim>\<open>WithContext\<close>, the policy answers \<^verbatim>\<open>Stop\<close> without drawing once the
    context is cancelled;
  \<^item> \<^verbatim>\<open>Retry\<close> resets the policy, then calls the operation until it succeeds, returns a
    permanent error, or the policy says \<^verbatim>\<open>Stop\<close>; between two attempts it sleeps for the
    drawn interval and returns the context's error if the context is cancelled first.
  Times are in nanoseconds. The library multiplies in floating point and truncates; on
  the values that occur here this is the integer arithmetic below, and the range of a
  draw may exceed the library's by one nanosecond.
\<close>

definition InitialInterval :: nat where
  "InitialInterval = 500000000"

definition MaxInterval :: nat where
  "MaxInterval = 10 * 1000000000"

definition MaxElapsedTime :: nat where
  "MaxElapsedTime = 5 * 60 * 1000000000"

fun currentInterval :: "nat \<Rightarrow> nat" where
  "currentInterval 0 = InitialInterval"
| "currentInterval (Suc k) =
     (if MaxInterval * 10 \<le> currentInterval k * 11 then MaxInterval
      else currentInterval k * 11 div 10)"

definition randomizedInterval :: "(nat \<Rightarrow> nat) \<Rightarrow> nat \<Rightarrow> nat" where
  "randomizedInterval rnd k = currentInterval k div 2 + rnd k mod (currentInterval k + 2)"

record ExponentialBackOff =
  startTime :: nat
  drawn :: nat

definition NewExponentialBackOff :: "world \<Rightarrow> ExponentialBackOff" where
  "NewExponentialBackOff w = \<lparr>startTime = now w, drawn = 0\<rparr>"

definition Reset :: "ExponentialBackOff \<Rightarrow> world \<Rightarrow> ExponentialBackOff" where
  "Reset b w = b\<lparr>startTime := now w, drawn := 0\<rparr>"

definition expNextBackOff ::
  "(nat \<Rightarrow> nat) \<Rightarrow> ExponentialBackOff \<Rightarrow> world \<Rightarrow> nat option \<times> ExponentialBackOff" where
  "expNextBackOff rnd b w =
     (let elapsed = now w - startTime b;
          next = randomizedInterval rnd (drawn b);
          b' = b\<lparr>drawn := Suc (drawn b)\<rparr>
      in if elapsed + next > MaxElapsedTime then (None, b') else (Some next, b'))"

definition NextBackOff ::
  "(nat \<Rightarrow> nat) \<Rightarrow> ExponentialBackOff \<Rightarrow> world \<Rightarrow> nat option \<times> ExponentialBackOff" where
  "NextBackOff rnd b w = (if ctxDone w then (None, b) else expNextBackOff rnd b w)"

text \<open>
  The \<^verbatim>\<open>select\<close> between \<^verbatim>\<open>ctx.Done()\<close> and the timer: \<open>True\<close> when the context wins,
  at the instant of the cancellation. When the cancellation falls on the very end of
  the sleep, either branch may be taken; \<open>ctxFirst\<close> is the choice made.
\<close>

definition sleepOrDone :: "bool \<Rightarrow> world \<Rightarrow> nat \<Rightarrow> bool \<times> world" where
  "sleepOrDone ctxFirst w d =
     (case cancelAt w of
        None \<Rightarrow> (False, w\<lparr>now := now w + d\<rparr>)
      | Some t \<Rightarrow> if t < now w + d \<or> (t = now w + d \<and> ctxFirst)
                  then (True, w\<lparr>now := max (now w) t\<rparr>)
                  else (False, w\<lparr>now := now w + d\<rparr>))"

text \<open>
  The operation that \<^verbatim>\<open>ConnectToLiveshare\<close> hands to \<^verbatim>\<open>Retry\<close>. It reads and assigns the
  variable \<^verbatim>\<open>codespace\<close> of the enclosing function, so the model passes the variable in
  and out. After a failed fetch the variable is not read again.
\<close>

definition operation ::
  "('s, 'l) collaborators \<Rightarrow> Codespace \<Rightarrow> world \<Rightarrow> error option \<times> Codespace \<times> world" where
  "operation c codespace w =
     (if connectionReady codespace then (None, codespace, w)
      else case callGetCodespace c w (Name codespace) True of
             (Inl err, w') \<Rightarrow>
               (Some (PermanentError (Wrapf ''error getting codespace: '' err)), codespace, w')
           | (Inr codespace', w') \<Rightarrow> (Some (New ''codespace not ready yet''), codespace', w'))"

text \<open>
  The state of the loop: the variable \<^verbatim>\<open>codespace\<close>, the policy and the world. One turn
  of the loop either returns (\<open>Inl\<close>) or goes round again (\<open>Inr\<close>).
\<close>

type_synonym frame = "Codespace \<times> ExponentialBackOff \<times> world"

definition retryStep ::
  "('s, 'l) collaborators \<Rightarrow> frame \<Rightarrow> (error option \<times> frame) + frame" where
  "retryStep c fr =
     (case fr of (codespace, b, w) \<Rightarrow>
      (case operation c codespace w of
         (None, codespace', w') \<Rightarrow> Inl (None, codespace', b, w')
       | (Some err, codespace', w') \<Rightarrow>
           (case asPermanent err of
              Some perr \<Rightarrow> Inl (Some perr, codespace', b, w')
            | None \<Rightarrow>
               (case NextBackOff (jitter c) b w' of
                  (None, b') \<Rightarrow>
                    Inl (Some (if ctxDone w' then Canceled else err), codespace', b', w')
                | (Some next, b') \<Rightarrow>
                    (case sleepOrDone (selectsContext c (now w' + next)) w' next of
                       (True, w'') \<Rightarrow> Inl (Some Canceled, codespace', b', w'')
                     | (False, w'') \<Rightarrow> Inr (codespace', b', w''))))))"

text \<open>
  The loop ends: no interval is below 250 ms, so every turn that goes round again moves
  the clock forward, and never beyond the policy's deadline.
\<close>

function retryLoop :: "('s, 'l) collaborators \<Rightarrow> frame \<Rightarrow> error option \<times> frame" where
  "retryLoop c fr = (case retryStep c fr of Inl r \<Rightarrow> r | Inr fr' \<Rightarrow> retryLoop c fr')"
  by pat_completeness auto
termination
proof (relation "measure (\<lambda>(c, codespace, b, w). startTime b + MaxElapsedTime + 1 - now w)")
  show "wf (measure (\<lambda>(c, codespace, b, w). startTime b + MaxElapsedTime + 1 - now w))"
    by simp
next
  fix c :: "('s, 'l) collaborators" and fr fr' :: frame
  assume step: "retryStep c fr = Inr fr'"
  have grow: "x \<le> x * 11 div 10" for x :: nat
    by presburger
  have "InitialInterval \<le> currentInterval k" for k
  proof (induction k)
    case 0
    show ?case by simp
  next
    case (Suc k)
    then show ?case
      using grow [of "currentInterval k"]
      by (simp add: InitialInterval_def MaxInterval_def)
  qed
  then have "2 \<le> currentInterval k" for k
    using le_trans [of 2 InitialInterval "currentInterval k"]
    by (simp add: InitialInterval_def)
  then have pos: "0 < randomizedInterval rnd k" for rnd k
    using div_le_mono [of 2 "currentInterval k" 2]
    by (simp add: randomizedInterval_def)
  obtain cs b w where fr: "fr = (cs, b, w)" by (cases fr)
  obtain cs' b' w' where fr': "fr' = (cs', b', w')" by (cases fr')
  from step pos [of "jitter c" "drawn b"]
  have "startTime b' = startTime b \<and> now w < now w' \<and> now w' \<le> startTime b + MaxElapsedTime"
    unfolding fr fr' retryStep_def operation_def callGetCodespace_def NextBackOff_def
      expNextBackOff_def sleepOrDone_def Let_def
    by (auto split: if_splits prod.splits option.splits sum.splits bool.splits)
  then show "((c, fr'), (c, fr))
      \<in> measure (\<lambda>(c, codespace, b, w). startTime b + MaxElapsedTime + 1 - now w)"
    unfolding fr fr' by auto
qed

declare retryLoop.simps [simp del]

definition Retry ::
  "('s, 'l) collaborators \<Rightarrow> Codespace \<Rightarrow> ExponentialBackOff \<Rightarrow> world
     \<Rightarrow> error option \<times> frame" where
  "Retry c codespace b w = retryLoop c (codespace, Reset b w, w)"

section \<open>\<^verbatim>\<open>ConnectToLiveshare\<close>\<close>

definition connectOptions :: "'l \<Rightarrow> Codespace \<Rightarrow> 'l Options" where
  "connectOptions sessionLogger codespace =
     \<lparr>SessionID_opt = SessionID (Connection codespace),
      SessionToken_opt = SessionToken (Connection codespace),
      RelaySAS_opt = RelaySAS (Connection codespace),
      RelayEndpoint_opt = RelayEndpoint (Connection codespace),
      HostPublicKeys_opt = HostPublicKeys (Connection codespace),
      Logger_opt = sessionLogger\<rparr>"

text \<open>
  What follows the call of \<^verbatim>\<open>Retry\<close>: on an error the policy is asked once more, and
  \<^verbatim>\<open>Stop\<close> turns the error into the timeout message; otherwise the session is opened.
  \<open>deferred\<close> counts the progress indicators to stop on return.
\<close>

definition afterRetry ::
  "('s, 'l) collaborators \<Rightarrow> 'l \<Rightarrow> nat \<Rightarrow> error option \<times> frame \<Rightarrow> (error + 's) \<times> world" where
  "afterRetry c sessionLogger deferred r =
     (case r of (err, codespace, ctxBackoff, w) \<Rightarrow>
      (case err of
         Some e \<Rightarrow>
           (case NextBackOff (jitter c) ctxBackoff w of
              (None, _) \<Rightarrow>
                (Inl (New ''timed out while waiting for the codespace to start''),
                 runDeferred deferred w)
            | (Some _, _) \<Rightarrow> (Inl e, runDeferred deferred w))
       | None \<Rightarrow>
           (case callConnect c (progressStart ''Connecting to codespace'' w)
                   (connectOptions sessionLogger codespace) of
              (res, w') \<Rightarrow> (res, runDeferred (Suc deferred) w'))))"

text \<open>
  \<open>resume\<close> is the rest of \<^verbatim>\<open>ConnectToLiveshare\<close> from the head of the loop, in any state
  of the loop; \<open>waitAndConnect\<close> enters the loop as \<^verbatim>\<open>Retry\<close> does, with a fresh policy.
\<close>

definition resume ::
  "('s, 'l) collaborators \<Rightarrow> 'l \<Rightarrow> nat \<Rightarrow> frame \<Rightarrow> (error + 's) \<times> world" where
  "resume c sessionLogger deferred fr = afterRetry c sessionLogger deferred (retryLoop c fr)"

definition waitAndConnect ::
  "('s, 'l) collaborators \<Rightarrow> 'l \<Rightarrow> nat \<Rightarrow> Codespace \<Rightarrow> world \<Rightarrow> (error + 's) \<times> world" where
  "waitAndConnect c sessionLogger deferred codespace w =
     afterRetry c sessionLogger deferred (Retry c codespace (NewExponentialBackOff w) w)"

definition ConnectToLiveshare ::
  "('s, 'l) collaborators \<Rightarrow> 'l \<Rightarrow> Codespace \<Rightarrow> world \<Rightarrow> (error + 's) \<times> world" where
  "ConnectToLiveshare c sessionLogger codespace w =
     (if State codespace \<noteq> CodespaceStateAvailable then
        (case callStartCodespace c (progressStart ''Starting codespace'' w) (Name codespace) of
           (Some err, w') \<Rightarrow> (Inl (Wrapf ''error starting codespace: '' err), runDeferred 1 w')
         | (None, w') \<Rightarrow> waitAndConnect c sessionLogger 1 codespace w')
      else waitAndConnect c sessionLogger 0 codespace w)"

section \<open>Decimal numbers\<close>

text \<open>
  \<^verbatim>\<open>fmt.Sprintf("%d", n)\<close> and \<^verbatim>\<open>strconv.Itoa\<close> write an integer in decimal.
  \<^verbatim>\<open>strconv.Atoi\<close> reads one: an optional sign, then one or more decimal digits, with a
  value that fits the 64-bit \<^verbatim>\<open>int\<close>. \<open>None\<close> stands for its failures; which error
  \<^verbatim>\<open>strconv\<close> reports for a text that it does not read is not modelled.
\<close>

definition digitChar :: "nat \<Rightarrow> char" where
  "digitChar d = ''0123456789'' ! d"

fun digitsOf :: "nat \<Rightarrow> string" where
  "digitsOf n = (if n < 10 then [digitChar n] else digitsOf (n div 10) @ [digitChar (n mod 10)])"

declare digitsOf.simps [simp del]

definition Itoa :: "int \<Rightarrow> string" where
  "Itoa i = (if i < 0 then CHR ''-'' # digitsOf (nat (- i)) else digitsOf (nat i))"

definition isDigit :: "char \<Rightarrow> bool" where
  "isDigit ch \<longleftrightarrow> ch \<in> set ''0123456789''"

definition digitVal :: "char \<Rightarrow> nat" where
  "digitVal ch = of_char ch - 48"

fun parseDigits :: "string \<Rightarrow> nat \<Rightarrow> nat option" where
  "parseDigits [] n = Some n"
| "parseDigits (ch # s) n = (if isDigit ch then parseDigits s (n * 10 + digitVal ch) else None)"

definition Atoi :: "string \<Rightarrow> int option" where
  "Atoi s =
     (let neg = (s \<noteq> [] \<and> hd s = CHR ''-'');
          ds = (if s \<noteq> [] \<and> (hd s = CHR ''-'' \<or> hd s = CHR ''+'') then tl s else s)
      in if ds = [] then None
         else case parseDigits ds 0 of
                None \<Rightarrow> None
              | Some n \<Rightarrow>
                  (let v = (if neg then - int n else int n)
                   in if v < - 9223372036854775808 \<or> 9223372036854775807 < v
                      then None else Some v))"

section \<open>\<^verbatim>\<open>ListenTCP\<close>\<close>

text \<open>
  The operating system's side of package \<^verbatim>\<open>net\<close> is a parameter: how an address text
  resolves, and what listening on a resolved address gives. A listener knows the
  address it is bound to.
\<close>

record TCPAddr =
  IP :: string
  Port :: int

record TCPListener =
  Addr :: TCPAddr

record net =
  ResolveTCPAddr :: "string \<Rightarrow> string \<Rightarrow> error + TCPAddr"
  netListenTCP :: "string \<Rightarrow> TCPAddr \<Rightarrow> error + TCPListener"

definition ListenTCP :: "net \<Rightarrow> int \<Rightarrow> TCPListener option \<times> int \<times> error option" where
  "ListenTCP os port =
     (case ResolveTCPAddr os ''tcp'' (''127.0.0.1:'' @ Itoa port) of
        Inl err \<Rightarrow> (None, 0, Some (Wrapf ''failed to build tcp address: '' err))
      | Inr addr \<Rightarrow>
          (case netListenTCP os ''tcp'' addr of
             Inl err \<Rightarrow> (None, 0, Some (Wrapf ''failed to listen to local port over tcp: '' err))
           | Inr listener \<Rightarrow> (Some listener, Port (Addr listener), None)))"

section \<open>The RPC invoker and its test server\<close>

text \<open>
  The tests of package \<^verbatim>\<open>rpc\<close> run the invoker against a mock server. The responses
  and the mock are read from the tests: each remote method is a function field of the
  mock, and the mock records the client-activity requests it receives. Of a request
  the model keeps what the invoker puts into it: the activities of a client-activity
  request, the mode of a rebuild request.
\<close>

record NotifyCodespaceOfClientActivityResponse =
  Message_notify :: string
  Result_notify :: bool

record RebuildContainerResponse =
  RebuildContainer_resp :: bool

record StartRemoteServerResponse =
  ServerPort :: string
  User :: string
  Message_ssh :: string
  Result_ssh :: bool

record GetRunningServerResponse =
  Port_jupyter :: string
  ServerUrl :: string
  Message_jupyter :: string
  Result_jupyter :: bool

record mockServer =
  NotifyCodespaceOfClientActivityFunc ::
    "string list \<Rightarrow> error + NotifyCodespaceOfClientActivityResponse"
  RebuildContainerAsyncFunc :: "bool \<Rightarrow> error + RebuildContainerResponse"
  StartRemoteServerAsyncFunc :: "unit \<Rightarrow> error + StartRemoteServerResponse"
  GetRunningServerFunc :: "unit \<Rightarrow> error + GetRunningServerResponse"
  NotifyCodespaceOfClientActivityCalls :: "string list list"

text \<open>
  \<^verbatim>\<open>newMockServer\<close> sets the client-activity method only. The other methods are set by
  each test before it calls them; until then the model lets them answer with an error.
\<close>

definition newMockServer :: mockServer where
  "newMockServer =
     \<lparr>NotifyCodespaceOfClientActivityFunc =
        (\<lambda>activities. Inr \<lparr>Message_notify = '''', Result_notify = True\<rparr>),
      RebuildContainerAsyncFunc = (\<lambda>request. Inl (New ''method is nil'')),
      StartRemoteServerAsyncFunc = (\<lambda>request. Inl (New ''method is nil'')),
      GetRunningServerFunc = (\<lambda>request. Inl (New ''method is nil'')),
      NotifyCodespaceOfClientActivityCalls = []\<rparr>"

text \<open>
  Modelled from the spec: the constant \<^verbatim>\<open>connectedEventName\<close> that the tests compare
  with is declared with the invoker, outside the files verified here; the specification
  gives the event name "connected".
\<close>

definition connectedEventName :: string where
  "connectedEventName = ''connected''"

text \<open>
  \<^verbatim>\<open>verifyNotifyCodespaceOfClientActivity\<close>, from the tests: there is a recorded call, and
  going through the calls in order one is found whose first activity is the connected
  event. \<open>False\<close> is a failed test, also when \<^verbatim>\<open>activities[0]\<close> does not exist.
\<close>

fun verifyCalls :: "string list list \<Rightarrow> bool" where
  "verifyCalls [] = False"
| "verifyCalls ([] # calls) = False"
| "verifyCalls ((activity # activities) # calls) =
     (if activity = connectedEventName then True else verifyCalls calls)"

definition verifyNotifyCodespaceOfClientActivity :: "mockServer \<Rightarrow> bool" where
  "verifyNotifyCodespaceOfClientActivity server =
     (if length (NotifyCodespaceOfClientActivityCalls server) = 0 then False
      else verifyCalls (NotifyCodespaceOfClientActivityCalls server))"

text \<open>
  The invoker borrows the channel of a session; through it, it reaches the server.
\<close>

record invoker =
  channel :: mockServer

text \<open>
  Modelled from the spec: the invoker's \<^verbatim>\<open>NotifyActivity\<close> is outside the files verified
  here. The specification makes it a remote call of the control service ("notify client
  activity") that carries the event name, falls under the uniform translation of
  envelopes, and whose error is for logging only. The server records the request.
\<close>

definition notifyCodespaceOfClientActivity ::
  "invoker \<Rightarrow> string \<Rightarrow> error option \<times> invoker" where
  "notifyCodespaceOfClientActivity ivk activity =
     (let server = channel ivk;
          server' = server\<lparr>NotifyCodespaceOfClientActivityCalls :=
                      NotifyCodespaceOfClientActivityCalls server @ [[activity]]\<rparr>
      in (case NotifyCodespaceOfClientActivityFunc server [activity] of
            Inl err \<Rightarrow> Some err
          | Inr response \<Rightarrow>
              if \<not> Result_notify response
              then Some (New (''failed to notify client activity: '' @ Message_notify response))
              else None,
          ivk\<lparr>channel := server'\<rparr>))"

text \<open>
  Modelled from the spec: \<^verbatim>\<open>CreateInvoker\<close> is outside the files verified here. By the
  specification it returns an invoker or an error; once the channel is usable it fires
  the notification of the connected event, whose outcome it does not look at. A session
  is given by what opening its channel yields: an error, or the server at the other end.
\<close>

definition CreateInvoker :: "error + mockServer \<Rightarrow> error + invoker" where
  "CreateInvoker session =
     (case session of
        Inl err \<Rightarrow> Inl err
      | Inr server \<Rightarrow>
          Inr (snd (notifyCodespaceOfClientActivity \<lparr>channel = server\<rparr> connectedEventName)))"

text \<open>
  Modelled from the spec: \<^verbatim>\<open>StartSSHServer\<close> is outside the files verified here. By the
  specification it returns a port, a user and an error; an envelope with success false
  gives zero values and the error "failed to <action>: <message>" (the tests fix the
  action: "start SSH server"); with success true the port, which arrives as text, is
  parsed, a parse failure is surfaced as an error, and otherwise the payload is
  returned with a nil error. The specification does not say which error surfaces a
  parse failure: it is the parameter \<open>parseFailure\<close>, applied to the text. A failure of
  the transport is returned as it is.
\<close>

definition StartSSHServer ::
  "(string \<Rightarrow> error) \<Rightarrow> invoker \<Rightarrow> int \<times> string \<times> error option" where
  "StartSSHServer parseFailure ivk =
     (case StartRemoteServerAsyncFunc (channel ivk) () of
        Inl err \<Rightarrow> (0, '''', Some err)
      | Inr response \<Rightarrow>
          if \<not> Result_ssh response
          then (0, '''', Some (New (''failed to start SSH server: '' @ Message_ssh response)))
          else (case Atoi (ServerPort response) of
                  None \<Rightarrow> (0, '''', Some (parseFailure (ServerPort response)))
                | Some port \<Rightarrow> (port, User response, None)))"

text \<open>
  Modelled from the spec: \<^verbatim>\<open>StartJupyterServer\<close> is outside the files verified here. It
  follows the same uniform translation, with the same parameter; the tests fix the
  action: "start JupyterLab".
\<close>

definition StartJupyterServer ::
  "(string \<Rightarrow> error) \<Rightarrow> invoker \<Rightarrow> int \<times> string \<times> error option" where
  "StartJupyterServer parseFailure ivk =
     (case GetRunningServerFunc (channel ivk) () of
        Inl err \<Rightarrow> (0, '''', Some err)
      | Inr response \<Rightarrow>
          if \<not> Result_jupyter response
          then (0, '''', Some (New (''failed to start JupyterLab: '' @ Message_jupyter response)))
          else (case Atoi (Port_jupyter response) of
                  None \<Rightarrow> (0, '''', Some (parseFailure (Port_jupyter response)))
                | Some port \<Rightarrow> (port, ServerUrl response, None)))"

text \<open>
  Modelled from the spec: \<^verbatim>\<open>RebuildContainer\<close> is outside the files verified here. By the
  specification it takes the rebuild mode and returns an error; the envelope of the
  rebuild call has a flag and no message, and a false flag gives the fixed message of
  the tests. The request carries the rebuild mode. A failure of the transport is
  returned as it is.
\<close>

definition RebuildContainer :: "invoker \<Rightarrow> bool \<Rightarrow> error option" where
  "RebuildContainer ivk full =
     (case RebuildContainerAsyncFunc (channel ivk) full of
        Inl err \<Rightarrow> Some err
      | Inr response \<Rightarrow>
          if \<not> RebuildContainer_resp response then Some (New ''couldn't rebuild codespace'')
          else None)"

section \<open>Concrete collaborators\<close>

text \<open>
  A codespace that is still starting and one that is ready; an API client that starts
  the codespace in one second and answers every fetch after one second with the record
  given to it; a world that begins at time zero.
\<close>

definition startingCodespace :: Codespace where
  "startingCodespace =
     \<lparr>Name = ''monalisa-cs'', State = ''Starting'',
      Connection = \<lparr>SessionID = '''', SessionToken = '''', RelayEndpoint = '''',
                    RelaySAS = '''', HostPublicKeys = []\<rparr>\<rparr>"

definition readyCodespace :: Codespace where
  "readyCodespace =
     \<lparr>Name = ''monalisa-cs'', State = ''Available'',
      Connection = \<lparr>SessionID = ''sid'', SessionToken = ''tok'',
                    RelayEndpoint = ''sb://relay'', RelaySAS = ''sas'',
                    HostPublicKeys = [''key'']\<rparr>\<rparr>"

definition apiClient ::
  "error option \<Rightarrow> error + Codespace \<Rightarrow> (string, unit) collaborators" where
  "apiClient started fetched =
     \<lparr>StartCodespace = (\<lambda>w name. (started, 1000000000)),
      GetCodespace = (\<lambda>w name includeConnection. (fetched, 1000000000)),
      liveshareConnect = (\<lambda>w opts. (Inr (SessionID_opt opts), 0)),
      jitter = (\<lambda>k. 0),
      selectsContext = (\<lambda>t. True)\<rparr>"

text \<open>
  A client whose \<^verbatim>\<open>liveshare.Connect\<close> hands back the options it was called with, so
  that a run shows every field that reached it.
\<close>

definition echoClient :: "(unit Options, unit) collaborators" where
  "echoClient =
     \<lparr>StartCodespace = (\<lambda>w name. (None, 1000000000)),
      GetCodespace = (\<lambda>w name includeConnection. (Inr readyCodespace, 1000000000)),
      liveshareConnect = (\<lambda>w opts. (Inr opts, 0)),
      jitter = (\<lambda>k. 0),
      selectsContext = (\<lambda>t. True)\<rparr>"

text \<open>
  The first client with a fetch that takes 299.6 s, and random numbers that make the
  first draw 600 ms (of 250 ms to 750 ms) and the second 300 ms (of 275 ms to 825 ms).
\<close>

definition slowFetchClient :: "(string, unit) collaborators" where
  "slowFetchClient =
     (apiClient None (Inr startingCodespace))
       \<lparr>GetCodespace := (\<lambda>w name includeConnection. (Inr startingCodespace, 299600000000)),
        jitter := (\<lambda>k. if k = 0 then 350000000 else 25000000)\<rparr>"

definition world0 :: "nat option \<Rightarrow> world" where
  "world0 cancel = \<lparr>now = 0, cancelAt = cancel, apiCalls = [], progressCalls = []\<rparr>"

text \<open>
  An operating system that resolves every address text to port 0 of the loopback
  address and binds every listener to port 49152.
\<close>

definition ephemeralNet :: net where
  "ephemeralNet =
     \<lparr>ResolveTCPAddr = (\<lambda>network address. Inr \<lparr>IP = ''127.0.0.1'', Port = 0\<rparr>),
      netListenTCP = (\<lambda>network addr. Inr \<lparr>Addr = addr\<lparr>Port := 49152\<rparr>\<rparr>)\<rparr>"

section \<open>Basic facts\<close>

lemma digitsOf_small: "n < 10 \<Longrightarrow> digitsOf n = [digitChar n]"
  by (simp add: digitsOf.simps)

lemma digitsOf_large: "10 \<le> n \<Longrightarrow> digitsOf n = digitsOf (n div 10) @ [digitChar (n mod 10)]"
  by (subst digitsOf.simps) simp

text \<open>
  Reading back what was written: \<^verbatim>\<open>strconv.Atoi\<close> reads the decimal writing of every
  integer that fits \<^verbatim>\<open>int\<close> as that integer.
\<close>

lemma digitChar_props:
  assumes "d < 10"
  shows "isDigit (digitChar d) \<and> digitVal (digitChar d) = d
       \<and> digitChar d \<noteq> CHR ''-'' \<and> digitChar d \<noteq> CHR ''+''"
proof -
  from assms have "d \<in> {0, 1, 2, 3, 4, 5, 6, 7, 8, 9}"
    by auto
  then show ?thesis
    by (auto simp add: digitChar_def isDigit_def digitVal_def)
qed

lemma parseDigits_append:
  "parseDigits (xs @ ys) a
     = (case parseDigits xs a of None \<Rightarrow> None | Some m \<Rightarrow> parseDigits ys m)"
  by (induction xs arbitrary: a) auto

lemma parseDigits_digitsOf: "parseDigits (digitsOf n) 0 = Some n"
proof (induction n rule: digitsOf.induct)
  case (1 n)
  show ?case
  proof (cases "n < 10")
    case True
    then show ?thesis
      using digitChar_props [of n] by (simp add: digitsOf_small)
  next
    case False
    then have "parseDigits (digitsOf (n div 10)) 0 = Some (n div 10)"
      using 1 by simp
    moreover have "n mod 10 < 10"
      by simp
    ultimately show ?thesis
      using False digitChar_props [of "n mod 10"]
      by (simp add: digitsOf_large parseDigits_append)
  qed
qed

lemma digitsOf_hd:
  "digitsOf n \<noteq> [] \<and> hd (digitsOf n) \<noteq> CHR ''-'' \<and> hd (digitsOf n) \<noteq> CHR ''+''"
proof (induction n rule: digitsOf.induct)
  case (1 n)
  show ?case
  proof (cases "n < 10")
    case True
    then show ?thesis
      using digitChar_props [of n] by (simp add: digitsOf_small)
  next
    case False
    then show ?thesis
      using 1 by (simp add: digitsOf_large)
  qed
qed

lemma Atoi_Itoa:
  assumes "- 9223372036854775808 \<le> n" and "n \<le> 9223372036854775807"
  shows "Atoi (Itoa n) = Some n"
proof (cases "n < 0")
  case True
  then show ?thesis
    using assms digitsOf_hd [of "nat (- n)"] parseDigits_digitsOf [of "nat (- n)"]
    by (simp add: Atoi_def Itoa_def)
next
  case False
  then show ?thesis
    using assms digitsOf_hd [of "nat n"] parseDigits_digitsOf [of "nat n"]
    by (simp add: Atoi_def Itoa_def)
qed

lemma retryLoop_ready:
  "connectionReady cs \<Longrightarrow> retryLoop c (cs, b, w) = (None, cs, b, w)"
  by (subst retryLoop.simps) (simp add: retryStep_def operation_def)

text \<open>
  The loop is tail recursive: from a state that goes round again, the rest of
  \<^verbatim>\<open>ConnectToLiveshare\<close> is the rest from the next state. So a statement about \<open>resume\<close>
  in every state of the loop is a statement about every turn of the loop.
\<close>

lemma resume_step:
  "retryStep c fr = Inr fr' \<Longrightarrow> resume c l n fr = resume c l n fr'"
  by (simp add: resume_def retryLoop.simps [of c fr])

lemma waitAndConnect_resume:
  "waitAndConnect c l n codespace w = resume c l n (codespace, NewExponentialBackOff w, w)"
  by (simp add: waitAndConnect_def resume_def Retry_def Reset_def NewExponentialBackOff_def)

lemma NextBackOff_stop:
  assumes "ctxDone w \<or> MaxElapsedTime < now w - startTime b"
  shows "fst (NextBackOff rnd b w) = None"
proof (cases "ctxDone w")
  case True
  then show ?thesis by (simp add: NextBackOff_def)
next
  case False
  with assms
  have "MaxElapsedTime < now w - startTime b + (randomizedInterval rnd (drawn b))"
    by linarith
  with False show ?thesis
    unfolding NextBackOff_def expNextBackOff_def Let_def by simp
qed

lemma NextBackOff_startTime: "startTime (snd (NextBackOff rnd b w)) = startTime b"
  by (simp add: NextBackOff_def expNextBackOff_def Let_def)

text \<open>
  Once the context is cancelled, or once more than the maximal time has elapsed, every
  error that leaves the loop is reported as the timeout.
\<close>

lemma afterRetry_stop:
  assumes "ctxDone w \<or> MaxElapsedTime < now w - startTime b"
  shows "afterRetry c l n (Some e, cs, b, w)
     = (Inl (New ''timed out while waiting for the codespace to start''), runDeferred n w)"
  using NextBackOff_stop [OF assms, of "jitter c"]
  by (cases "NextBackOff (jitter c) b w") (simp add: afterRetry_def)

lemma retryLoop_transient_stop:
  assumes "\<not> connectionReady codespace"
    and "GetCodespace c w (Name codespace) True = (Inr codespace', d)"
    and "w' = w\<lparr>now := now w + d,
                 apiCalls := apiCalls w @ [GetCodespaceCall (Name codespace) True]\<rparr>"
    and "ctxDone w' \<or> MaxElapsedTime < now w' - startTime b"
  shows "retryLoop c (codespace, b, w)
           = (Some (if ctxDone w' then Canceled else New ''codespace not ready yet''),
              codespace', snd (NextBackOff (jitter c) b w'), w')"
proof -
  have op: "operation c codespace w = (Some (New ''codespace not ready yet''), codespace', w')"
    using assms(1-3) by (simp add: operation_def callGetCodespace_def)
  obtain b' where nb: "NextBackOff (jitter c) b w' = (None, b')"
    using NextBackOff_stop [OF assms(4), of "jitter c"]
    by (cases "NextBackOff (jitter c) b w'") simp
  from op nb have "retryStep c (codespace, b, w)
      = Inl (Some (if ctxDone w' then Canceled else New ''codespace not ready yet''),
             codespace', b', w')"
    by (simp add: retryStep_def)
  then show ?thesis
    by (subst retryLoop.simps) (simp add: nb)
qed

text \<open>
  While the context is live and the policy has time left, an error that leaves the loop
  reaches the caller as it is.
\<close>

lemma afterRetry_passes_error:
  assumes "\<not> ctxDone w"
    and "now w - startTime b + (randomizedInterval (jitter c) (drawn b)) \<le> MaxElapsedTime"
  shows "afterRetry c l n (Some e, cs, b, w) = (Inl e, runDeferred n w)"
  using assms by (simp add: afterRetry_def NextBackOff_def expNextBackOff_def Let_def)

text \<open>
  When more than the maximal elapsed time has passed by the time a fetch returns a
  record, the loop gives up and \<^verbatim>\<open>ConnectToLiveshare\<close> reports the timeout: the policy
  answers \<^verbatim>\<open>Stop\<close> both to the loop and to the question asked after it.
\<close>

lemma deadline_exceeded_is_timed_out:
  assumes "\<not> connectionReady codespace"
    and "GetCodespace c w (Name codespace) True = (Inr codespace', d)"
    and "MaxElapsedTime < now w + d - startTime b"
  shows "fst (resume c sessionLogger deferred (codespace, b, w))
           = Inl (New ''timed out while waiting for the codespace to start'')
       \<and> fst (retryLoop c (codespace, b, w))
           = Some (if ctxDone (w\<lparr>now := now w + d\<rparr>) then Canceled
                   else New ''codespace not ready yet'')
       \<and> New ''timed out while waiting for the codespace to start''
           \<noteq> New ''codespace not ready yet''
       \<and> New ''timed out while waiting for the codespace to start'' \<noteq> Canceled
       \<and> Error (New ''timed out while waiting for the codespace to start'') \<noteq> Error Canceled
       \<and> Error (New ''timed out while waiting for the codespace to start'')
           \<noteq> Error (Wrapf ''error starting codespace: '' e1)
       \<and> Error (New ''timed out while waiting for the codespace to start'')
           \<noteq> Error (Wrapf ''error getting codespace: '' e2)"
proof -
  define w' where "w' = w\<lparr>now := now w + d,
      apiCalls := apiCalls w @ [GetCodespaceCall (Name codespace) True]\<rparr>"
  have late: "ctxDone w' \<or> MaxElapsedTime < now w' - startTime b"
    using assms(3) by (simp add: w'_def)
  have loop: "retryLoop c (codespace, b, w)
      = (Some (if ctxDone w' then Canceled else New ''codespace not ready yet''),
         codespace', snd (NextBackOff (jitter c) b w'), w')"
    using assms(1,2) w'_def late by (rule retryLoop_transient_stop)
  have "ctxDone w' \<or> MaxElapsedTime < now w' - startTime (snd (NextBackOff (jitter c) b w'))"
    using late by (simp add: NextBackOff_startTime)
  then have "fst (resume c sessionLogger deferred (codespace, b, w))
      = Inl (New ''timed out while waiting for the codespace to start'')"
    by (simp add: resume_def loop afterRetry_stop)
  moreover have "ctxDone w' = ctxDone (w\<lparr>now := now w + d\<rparr>)"
    by (cases "cancelAt w") (simp_all add: w'_def ctxDone_def)
  ultimately show ?thesis
    by (simp add: loop)
qed

text \<open>
  The policy also gives up before the time is over, when the interval it has just drawn
  does not fit into the time left. The question asked after the loop draws a new
  interval; if that one fits, the answer is not \<^verbatim>\<open>Stop\<close> and the transient error of the
  loop goes to the caller.
\<close>

lemma early_stop_passes_transient_error:
  assumes "\<not> connectionReady codespace"
    and "GetCodespace c w (Name codespace) True = (Inr codespace', d)"
    and "w' = w\<lparr>now := now w + d,
                 apiCalls := apiCalls w @ [GetCodespaceCall (Name codespace) True]\<rparr>"
    and "\<not> ctxDone w'"
    and "MaxElapsedTime
           < now w' - startTime b + (randomizedInterval (jitter c) (drawn b))"
    and "now w' - startTime b + (randomizedInterval (jitter c) (Suc (drawn b)))
           \<le> MaxElapsedTime"
  shows "resume c l n (codespace, b, w)
           = (Inl (New ''codespace not ready yet''), runDeferred n w')"
proof -
  have op: "operation c codespace w = (Some (New ''codespace not ready yet''), codespace', w')"
    using assms(1-3) by (simp add: operation_def callGetCodespace_def)
  have nb: "NextBackOff (jitter c) b w' = (None, b\<lparr>drawn := Suc (drawn b)\<rparr>)"
    using assms(4,5) by (simp add: NextBackOff_def expNextBackOff_def Let_def)
  have "retryStep c (codespace, b, w)
      = Inl (Some (New ''codespace not ready yet''), codespace', b\<lparr>drawn := Suc (drawn b)\<rparr>, w')"
    using op nb assms(4) by (simp add: retryStep_def)
  then have loop: "retryLoop c (codespace, b, w)
      = (Some (New ''codespace not ready yet''), codespace', b\<lparr>drawn := Suc (drawn b)\<rparr>, w')"
    by (subst retryLoop.simps) simp
  show ?thesis
    using assms(4,6) by (simp add: resume_def loop afterRetry_passes_error)
qed

text \<open>
  In any turn of the loop in which the record is not ready and the fetch fails, the
  wait ends at once with the error of the fetch wrapped as "error getting codespace:
  ...". While the context is live and the policy has time left, that error reaches the
  caller of \<^verbatim>\<open>ConnectToLiveshare\<close>.
\<close>

lemma fetch_failure_ends_wait:
  assumes "\<not> connectionReady codespace"
    and "GetCodespace c w (Name codespace) True = (Inl err, d)"
  shows "retryLoop c (codespace, b, w)
           = (Some (Wrapf ''error getting codespace: '' err), codespace, b,
              w\<lparr>now := now w + d,
                apiCalls := apiCalls w @ [GetCodespaceCall (Name codespace) True]\<rparr>)
       \<and> Error (Wrapf ''error getting codespace: '' err)
           = ''error getting codespace: '' @ Error err
       \<and> Unwrap (Wrapf ''error getting codespace: '' err) = Some err
       \<and> (\<not> ctxDone (w\<lparr>now := now w + d\<rparr>) \<and>
          now w + d - startTime b + (randomizedInterval (jitter c) (drawn b))
            \<le> MaxElapsedTime \<longrightarrow>
          fst (resume c sessionLogger deferred (codespace, b, w))
            = Inl (Wrapf ''error getting codespace: '' err))"
proof -
  define w' where "w' = w\<lparr>now := now w + d,
      apiCalls := apiCalls w @ [GetCodespaceCall (Name codespace) True]\<rparr>"
  have loop: "retryLoop c (codespace, b, w)
      = (Some (Wrapf ''error getting codespace: '' err), codespace, b, w')"
    using assms unfolding w'_def
    by (subst retryLoop.simps) (simp add: retryStep_def operation_def callGetCodespace_def)
  have done_eq: "ctxDone w' = ctxDone (w\<lparr>now := now w + d\<rparr>)"
    by (cases "cancelAt w") (simp_all add: w'_def ctxDone_def)
  have "fst (resume c sessionLogger deferred (codespace, b, w))
          = Inl (Wrapf ''error getting codespace: '' err)"
    if "\<not> ctxDone (w\<lparr>now := now w + d\<rparr>)"
      and "now w + d - startTime b + (randomizedInterval (jitter c) (drawn b))
             \<le> MaxElapsedTime"
  proof -
    have "\<not> ctxDone w'"
      using that(1) done_eq by simp
    moreover have "now w' - startTime b + (randomizedInterval (jitter c) (drawn b))
        \<le> MaxElapsedTime"
      using that(2) by (simp add: w'_def)
    ultimately show ?thesis
      by (simp add: resume_def loop afterRetry_passes_error)
  qed
  with loop show ?thesis
    by (simp add: w'_def)
qed

section \<open>The readiness predicate\<close>

text \<open>
  C1. A codespace record is ready exactly when its session id, session token, relay
  endpoint and relay shared-access credential are all non-empty and its state is
  Available. So a record with any one of the four fields empty, or with any other
  state, is not ready, whatever the rest of it holds.
\<close>

theorem connectionReady_iff:
  "(connectionReady cs \<longleftrightarrow>
       SessionID (Connection cs) \<noteq> [] \<and> SessionToken (Connection cs) \<noteq> [] \<and>
       RelayEndpoint (Connection cs) \<noteq> [] \<and> RelaySAS (Connection cs) \<noteq> [] \<and>
       State cs = CodespaceStateAvailable)
   \<and> \<not> connectionReady (cs\<lparr>Connection := (Connection cs)\<lparr>SessionID := []\<rparr>\<rparr>)
   \<and> \<not> connectionReady (cs\<lparr>Connection := (Connection cs)\<lparr>SessionToken := []\<rparr>\<rparr>)
   \<and> \<not> connectionReady (cs\<lparr>Connection := (Connection cs)\<lparr>RelayEndpoint := []\<rparr>\<rparr>)
   \<and> \<not> connectionReady (cs\<lparr>Connection := (Connection cs)\<lparr>RelaySAS := []\<rparr>\<rparr>)
   \<and> (st \<noteq> CodespaceStateAvailable \<longrightarrow> \<not> connectionReady (cs\<lparr>State := st\<rparr>))"
  by (simp add: connectionReady_def)

theorem connectionReady_iff_witness:
  "''Starting'' \<noteq> CodespaceStateAvailable
   \<and> connectionReady readyCodespace
   \<and> \<not> connectionReady (readyCodespace\<lparr>State := ''Starting''\<rparr>)
   \<and> \<not> connectionReady
         (readyCodespace\<lparr>Connection := (Connection readyCodespace)\<lparr>RelaySAS := []\<rparr>\<rparr>)"
  using connectionReady_iff [of readyCodespace "''Starting''"]
  by (simp add: CodespaceStateAvailable_def readyCodespace_def)

section \<open>Waiting for the codespace\<close>

text \<open>
  C5. If the record passed to \<^verbatim>\<open>ConnectToLiveshare\<close> is already ready, the API client
  receives no call at all (neither a start request nor a fetch), and the session is the
  one that \<^verbatim>\<open>liveshare.Connect\<close> opens with the session id, session token, relay
  credential, relay endpoint and host keys of that very record, and the caller's logger.
\<close>

theorem ready_record_no_api_calls:
  assumes "connectionReady codespace"
  shows "fst (ConnectToLiveshare c sessionLogger codespace w)
           = fst (liveshareConnect c (progressStart ''Connecting to codespace'' w)
                    \<lparr>SessionID_opt = SessionID (Connection codespace),
                     SessionToken_opt = SessionToken (Connection codespace),
                     RelaySAS_opt = RelaySAS (Connection codespace),
                     RelayEndpoint_opt = RelayEndpoint (Connection codespace),
                     HostPublicKeys_opt = HostPublicKeys (Connection codespace),
                     Logger_opt = sessionLogger\<rparr>)
       \<and> apiCalls (snd (ConnectToLiveshare c sessionLogger codespace w)) = apiCalls w
       \<and> progressCalls (snd (ConnectToLiveshare c sessionLogger codespace w))
           = progressCalls w
               @ [StartProgressIndicatorWithLabel ''Connecting to codespace'',
                  StopProgressIndicator]"
proof -
  from assms have st: "State codespace = CodespaceStateAvailable"
    by (simp add: connectionReady_def)
  have "retryLoop c (codespace, NewExponentialBackOff w, w)
          = (None, codespace, NewExponentialBackOff w, w)"
    using assms by (rule retryLoop_ready)
  then show ?thesis
    by (simp add: ConnectToLiveshare_def st waitAndConnect_resume resume_def
        afterRetry_def callConnect_def runDeferred_def progressStart_def connectOptions_def
        split: prod.splits)
qed

theorem ready_record_no_api_calls_witness:
  "connectionReady readyCodespace
   \<and> fst (ConnectToLiveshare echoClient () readyCodespace (world0 None))
       = Inr \<lparr>SessionID_opt = ''sid'', SessionToken_opt = ''tok'', RelaySAS_opt = ''sas'',
              RelayEndpoint_opt = ''sb://relay'', HostPublicKeys_opt = [''key''],
              Logger_opt = ()\<rparr>
   \<and> apiCalls (snd (ConnectToLiveshare echoClient () readyCodespace (world0 None))) = []"
  using ready_record_no_api_calls [of readyCodespace echoClient "()" "world0 None"]
  by (simp add: connectionReady_def CodespaceStateAvailable_def readyCodespace_def
      echoClient_def world0_def)

text \<open>
  C6. If the state at entry is not Available and the start request fails, then
  \<^verbatim>\<open>ConnectToLiveshare\<close> returns no session and the error of the start request wrapped
  as "error starting codespace: ...", from which the underlying error can be unwrapped;
  the start request is the only call the API client has received, so there was no retry
  and no fetch.
\<close>

theorem start_failure_is_final:
  assumes "State codespace \<noteq> CodespaceStateAvailable"
    and "fst (StartCodespace c (progressStart ''Starting codespace'' w) (Name codespace))
           = Some err"
  shows "fst (ConnectToLiveshare c sessionLogger codespace w)
           = Inl (Wrapf ''error starting codespace: '' err)
       \<and> Error (Wrapf ''error starting codespace: '' err)
           = ''error starting codespace: '' @ Error err
       \<and> Unwrap (Wrapf ''error starting codespace: '' err) = Some err
       \<and> apiCalls (snd (ConnectToLiveshare c sessionLogger codespace w))
           = apiCalls w @ [StartCodespaceCall (Name codespace)]"
proof -
  obtain d where "StartCodespace c (progressStart ''Starting codespace'' w) (Name codespace)
                    = (Some err, d)"
    using assms(2)
    by (cases "StartCodespace c (progressStart ''Starting codespace'' w) (Name codespace)")
       simp
  then show ?thesis
    using assms(1)
    by (simp add: ConnectToLiveshare_def callStartCodespace_def runDeferred_def
        progressStart_def)
qed

theorem start_failure_is_final_witness:
  "State startingCodespace \<noteq> CodespaceStateAvailable
   \<and> ConnectToLiveshare (apiClient (Some (New ''HTTP 503'')) (Inr readyCodespace)) ()
         startingCodespace (world0 None)
       = (Inl (Wrapf ''error starting codespace: '' (New ''HTTP 503'')),
          \<lparr>now = 1000000000, cancelAt = None,
           apiCalls = [StartCodespaceCall ''monalisa-cs''],
           progressCalls = [StartProgressIndicatorWithLabel ''Starting codespace'',
                            StopProgressIndicator]\<rparr>)"
  using start_failure_is_final
    [of startingCodespace "apiClient (Some (New ''HTTP 503'')) (Inr readyCodespace)"
        "world0 None" "New ''HTTP 503''" "()"]
  by (simp add: CodespaceStateAvailable_def startingCodespace_def apiClient_def world0_def
      ConnectToLiveshare_def callStartCodespace_def runDeferred_def progressStart_def)

text \<open>
  C7. A run in which the fetch of the wait loop fails: the codespace is starting, the
  start request takes one second, the caller cancels the context 1.5 s after the call,
  and the fetch, under way by then, fails with the context's error one second after it
  began. The wait ends at once: \<^verbatim>\<open>Retry\<close> returns the error of the fetch wrapped as
  "error getting codespace: ...", the fetch is the last call to the API client, the
  policy is not consulted and nothing is slept. But \<^verbatim>\<open>ConnectToLiveshare\<close> then asks the
  policy, which answers \<^verbatim>\<open>Stop\<close> for a cancelled context, and returns the timeout error
  in place of the wrapped one.
\<close>

theorem failed_fetch_is_reported_as_timed_out:
  "Retry (apiClient None (Inl Canceled)) startingCodespace
       \<lparr>startTime = 1000000000, drawn = 0\<rparr>
       \<lparr>now = 1000000000, cancelAt = Some 1500000000,
        apiCalls = [StartCodespaceCall ''monalisa-cs''],
        progressCalls = [StartProgressIndicatorWithLabel ''Starting codespace'']\<rparr>
     = (Some (Wrapf ''error getting codespace: '' Canceled), startingCodespace,
        \<lparr>startTime = 1000000000, drawn = 0\<rparr>,
        \<lparr>now = 2000000000, cancelAt = Some 1500000000,
         apiCalls = [StartCodespaceCall ''monalisa-cs'',
                     GetCodespaceCall ''monalisa-cs'' True],
         progressCalls = [StartProgressIndicatorWithLabel ''Starting codespace'']\<rparr>)
   \<and> ConnectToLiveshare (apiClient None (Inl Canceled)) () startingCodespace
       (world0 (Some 1500000000))
     = (Inl (New ''timed out while waiting for the codespace to start''),
        \<lparr>now = 2000000000, cancelAt = Some 1500000000,
         apiCalls = [StartCodespaceCall ''monalisa-cs'',
                     GetCodespaceCall ''monalisa-cs'' True],
         progressCalls = [StartProgressIndicatorWithLabel ''Starting codespace'',
                          StopProgressIndicator]\<rparr>)"
proof -
  let ?c = "apiClient None (Inl Canceled) :: (string, unit) collaborators"
  let ?w1 = "\<lparr>now = 1000000000, cancelAt = Some 1500000000,
        apiCalls = [StartCodespaceCall ''monalisa-cs''],
        progressCalls = [StartProgressIndicatorWithLabel ''Starting codespace'']\<rparr>"
  let ?w2 = "\<lparr>now = 2000000000, cancelAt = Some 1500000000,
        apiCalls = [StartCodespaceCall ''monalisa-cs'',
                    GetCodespaceCall ''monalisa-cs'' True],
        progressCalls = [StartProgressIndicatorWithLabel ''Starting codespace'']\<rparr>"
  have step: "retryStep ?c (startingCodespace, \<lparr>startTime = 1000000000, drawn = 0\<rparr>, ?w1)
      = Inl (Some (Wrapf ''error getting codespace: '' Canceled), startingCodespace,
             \<lparr>startTime = 1000000000, drawn = 0\<rparr>, ?w2)"
    by (simp add: retryStep_def operation_def connectionReady_def startingCodespace_def
        callGetCodespace_def apiClient_def)
  have loop: "retryLoop ?c (startingCodespace, \<lparr>startTime = 1000000000, drawn = 0\<rparr>, ?w1)
      = (Some (Wrapf ''error getting codespace: '' Canceled), startingCodespace,
         \<lparr>startTime = 1000000000, drawn = 0\<rparr>, ?w2)"
    by (subst retryLoop.simps) (simp add: step)
  have retry: "Retry ?c startingCodespace \<lparr>startTime = 1000000000, drawn = 0\<rparr> ?w1
      = (Some (Wrapf ''error getting codespace: '' Canceled), startingCodespace,
         \<lparr>startTime = 1000000000, drawn = 0\<rparr>, ?w2)"
    by (simp add: Retry_def Reset_def loop)
  have start: "callStartCodespace ?c (progressStart ''Starting codespace''
        (world0 (Some 1500000000))) (Name startingCodespace) = (None, ?w1)"
    by (simp add: callStartCodespace_def apiClient_def progressStart_def world0_def
        startingCodespace_def)
  have "ConnectToLiveshare ?c () startingCodespace (world0 (Some 1500000000))
      = afterRetry ?c () 1 (Retry ?c startingCodespace (NewExponentialBackOff ?w1) ?w1)"
    by (simp add: ConnectToLiveshare_def start waitAndConnect_def)
       (simp add: startingCodespace_def CodespaceStateAvailable_def)
  also have "NewExponentialBackOff ?w1 = \<lparr>startTime = 1000000000, drawn = 0\<rparr>"
    by (simp add: NewExponentialBackOff_def)
  finally show ?thesis
    by (simp add: retry afterRetry_def NextBackOff_def ctxDone_def runDeferred_def)
qed

text \<open>
  C4. A run in which the wait loop runs out of time while the codespace is not ready:
  the start request takes one second, the fetch returns a record that is not ready
  299.6 s later, and the policy draws 600 ms, which does not fit into the 400 ms left
  of the five minutes, so the loop gives up with its transient error.
  \<^verbatim>\<open>ConnectToLiveshare\<close> then asks the policy again; this time the policy draws
  300 ms, which fits, the answer is not \<^verbatim>\<open>Stop\<close>, and the caller gets "codespace not
  ready yet" where the timeout error was due.
\<close>

theorem deadline_surfaces_transient_error:
  "ConnectToLiveshare slowFetchClient () startingCodespace (world0 None)
     = (Inl (New ''codespace not ready yet''),
        \<lparr>now = 300600000000, cancelAt = None,
         apiCalls = [StartCodespaceCall ''monalisa-cs'',
                     GetCodespaceCall ''monalisa-cs'' True],
         progressCalls = [StartProgressIndicatorWithLabel ''Starting codespace'',
                          StopProgressIndicator]\<rparr>)"
proof -
  let ?w1 = "\<lparr>now = 1000000000, cancelAt = None,
        apiCalls = [StartCodespaceCall ''monalisa-cs''],
        progressCalls = [StartProgressIndicatorWithLabel ''Starting codespace'']\<rparr>"
  let ?w2 = "\<lparr>now = 300600000000, cancelAt = None,
        apiCalls = [StartCodespaceCall ''monalisa-cs'',
                    GetCodespaceCall ''monalisa-cs'' True],
        progressCalls = [StartProgressIndicatorWithLabel ''Starting codespace'']\<rparr>"
  have start: "callStartCodespace slowFetchClient (progressStart ''Starting codespace''
        (world0 None)) (Name startingCodespace) = (None, ?w1)"
    by (simp add: callStartCodespace_def slowFetchClient_def apiClient_def progressStart_def
        world0_def startingCodespace_def)
  have "resume slowFetchClient () 1 (startingCodespace, NewExponentialBackOff ?w1, ?w1)
      = (Inl (New ''codespace not ready yet''), runDeferred 1 ?w2)"
  proof (rule early_stop_passes_transient_error)
    show "\<not> connectionReady startingCodespace"
      by (simp add: connectionReady_def startingCodespace_def)
    show "GetCodespace slowFetchClient ?w1 (Name startingCodespace) True
        = (Inr startingCodespace, 299600000000)"
      by (simp add: slowFetchClient_def)
    show "?w2 = ?w1\<lparr>now := now ?w1 + 299600000000,
        apiCalls := apiCalls ?w1 @ [GetCodespaceCall (Name startingCodespace) True]\<rparr>"
      by (simp add: startingCodespace_def)
    show "\<not> ctxDone ?w2"
      by (simp add: ctxDone_def)
    show "MaxElapsedTime < now ?w2 - startTime (NewExponentialBackOff ?w1)
        + randomizedInterval (jitter slowFetchClient) (drawn (NewExponentialBackOff ?w1))"
      by (simp add: MaxElapsedTime_def randomizedInterval_def InitialInterval_def MaxInterval_def NewExponentialBackOff_def
          slowFetchClient_def)
    show "now ?w2 - startTime (NewExponentialBackOff ?w1)
        + randomizedInterval (jitter slowFetchClient) (Suc (drawn (NewExponentialBackOff ?w1)))
        \<le> MaxElapsedTime"
      by (simp add: MaxElapsedTime_def randomizedInterval_def InitialInterval_def MaxInterval_def NewExponentialBackOff_def
          slowFetchClient_def)
  qed
  then show ?thesis
    by (simp add: ConnectToLiveshare_def start waitAndConnect_resume runDeferred_def)
       (simp add: startingCodespace_def CodespaceStateAvailable_def)
qed

text \<open>
  C3. A run in which the caller cancels the context during the first sleep of the wait
  loop, 2.1 s after the call: the codespace is starting, the start request and the
  fetch take one second each, and the fetched record is not ready. The wait stops at
  the instant of the cancellation and \<^verbatim>\<open>Retry\<close> yields the context's error, but
  \<^verbatim>\<open>ConnectToLiveshare\<close> then asks the policy, which answers \<^verbatim>\<open>Stop\<close> for a cancelled
  context, and returns the timeout error: the cancellation reaches the caller as "timed
  out while waiting for the codespace to start".
\<close>

theorem cancellation_is_reported_as_timed_out:
  "Retry (apiClient None (Inr startingCodespace)) startingCodespace
       \<lparr>startTime = 1000000000, drawn = 0\<rparr>
       \<lparr>now = 1000000000, cancelAt = Some 2100000000,
        apiCalls = [StartCodespaceCall ''monalisa-cs''],
        progressCalls = [StartProgressIndicatorWithLabel ''Starting codespace'']\<rparr>
     = (Some Canceled, startingCodespace, \<lparr>startTime = 1000000000, drawn = 1\<rparr>,
        \<lparr>now = 2100000000, cancelAt = Some 2100000000,
         apiCalls = [StartCodespaceCall ''monalisa-cs'',
                     GetCodespaceCall ''monalisa-cs'' True],
         progressCalls = [StartProgressIndicatorWithLabel ''Starting codespace'']\<rparr>)
   \<and> ConnectToLiveshare (apiClient None (Inr startingCodespace)) () startingCodespace
       (world0 (Some 2100000000))
     = (Inl (New ''timed out while waiting for the codespace to start''),
        \<lparr>now = 2100000000, cancelAt = Some 2100000000,
         apiCalls = [StartCodespaceCall ''monalisa-cs'',
                     GetCodespaceCall ''monalisa-cs'' True],
         progressCalls = [StartProgressIndicatorWithLabel ''Starting codespace'',
                          StopProgressIndicator]\<rparr>)"
proof -
  let ?c = "apiClient None (Inr startingCodespace) :: (string, unit) collaborators"
  let ?w1 = "\<lparr>now = 1000000000, cancelAt = Some 2100000000,
        apiCalls = [StartCodespaceCall ''monalisa-cs''],
        progressCalls = [StartProgressIndicatorWithLabel ''Starting codespace'']\<rparr>"
  have step: "retryStep ?c (startingCodespace, \<lparr>startTime = 1000000000, drawn = 0\<rparr>, ?w1)
      = Inl (Some Canceled, startingCodespace, \<lparr>startTime = 1000000000, drawn = 1\<rparr>,
        \<lparr>now = 2100000000, cancelAt = Some 2100000000,
         apiCalls = [StartCodespaceCall ''monalisa-cs'',
                     GetCodespaceCall ''monalisa-cs'' True],
         progressCalls = [StartProgressIndicatorWithLabel ''Starting codespace'']\<rparr>)"
    by (simp add: retryStep_def operation_def connectionReady_def startingCodespace_def
        callGetCodespace_def apiClient_def NextBackOff_def expNextBackOff_def ctxDone_def
        sleepOrDone_def MaxElapsedTime_def randomizedInterval_def InitialInterval_def Let_def)
  have loop: "retryLoop ?c (startingCodespace, \<lparr>startTime = 1000000000, drawn = 0\<rparr>, ?w1)
      = (Some Canceled, startingCodespace, \<lparr>startTime = 1000000000, drawn = 1\<rparr>,
        \<lparr>now = 2100000000, cancelAt = Some 2100000000,
         apiCalls = [StartCodespaceCall ''monalisa-cs'',
                     GetCodespaceCall ''monalisa-cs'' True],
         progressCalls = [StartProgressIndicatorWithLabel ''Starting codespace'']\<rparr>)"
    by (subst retryLoop.simps) (simp add: step)
  have retry: "Retry ?c startingCodespace \<lparr>startTime = 1000000000, drawn = 0\<rparr> ?w1
      = (Some Canceled, startingCodespace, \<lparr>startTime = 1000000000, drawn = 1\<rparr>,
        \<lparr>now = 2100000000, cancelAt = Some 2100000000,
         apiCalls = [StartCodespaceCall ''monalisa-cs'',
                     GetCodespaceCall ''monalisa-cs'' True],
         progressCalls = [StartProgressIndicatorWithLabel ''Starting codespace'']\<rparr>)"
    by (simp add: Retry_def Reset_def loop)
  have start: "callStartCodespace ?c (progressStart ''Starting codespace''
        (world0 (Some 2100000000))) (Name startingCodespace) = (None, ?w1)"
    by (simp add: callStartCodespace_def apiClient_def progressStart_def world0_def
        startingCodespace_def)
  have "ConnectToLiveshare ?c () startingCodespace (world0 (Some 2100000000))
      = afterRetry ?c () 1 (Retry ?c startingCodespace (NewExponentialBackOff ?w1) ?w1)"
    by (simp add: ConnectToLiveshare_def start waitAndConnect_def)
       (simp add: startingCodespace_def CodespaceStateAvailable_def)
  also have "NewExponentialBackOff ?w1 = \<lparr>startTime = 1000000000, drawn = 0\<rparr>"
    by (simp add: NewExponentialBackOff_def)
  finally show ?thesis
    by (simp add: retry afterRetry_def NextBackOff_def ctxDone_def runDeferred_def)
qed

section \<open>Listening on a local port\<close>

text \<open>
  C10. Whenever \<^verbatim>\<open>ListenTCP\<close> succeeds, the address it resolved is the text "127.0.0.1:"
  followed by the requested port in decimal, the listener is the one the operating
  system bound for that address, and the returned port is the port of the listener's
  own address; so for the request 0 it is the port the operating system chose. A failed
  resolution gives "failed to build tcp address: ..." and a failed bind gives "failed
  to listen to local port over tcp: ...", two messages that are never equal; both
  return no listener and port 0.
\<close>

theorem ListenTCP_reports_bound_port:
  "(ListenTCP os port = (Some listener, p, None) \<longrightarrow>
      p = Port (Addr listener) \<and>
      (\<exists>addr. ResolveTCPAddr os ''tcp'' (''127.0.0.1:'' @ Itoa port) = Inr addr \<and>
              netListenTCP os ''tcp'' addr = Inr listener))
   \<and> (ResolveTCPAddr os ''tcp'' (''127.0.0.1:'' @ Itoa port) = Inr addr \<and>
      netListenTCP os ''tcp'' addr = Inr l \<longrightarrow>
        ListenTCP os port = (Some l, Port (Addr l), None))
   \<and> (ResolveTCPAddr os ''tcp'' ''127.0.0.1:0'' = Inr addr \<and>
      netListenTCP os ''tcp'' addr = Inr l \<longrightarrow>
        ListenTCP os 0 = (Some l, Port (Addr l), None))
   \<and> (ResolveTCPAddr os ''tcp'' (''127.0.0.1:'' @ Itoa port) = Inl e1 \<longrightarrow>
        ListenTCP os port = (None, 0, Some (Wrapf ''failed to build tcp address: '' e1)))
   \<and> (ResolveTCPAddr os ''tcp'' (''127.0.0.1:'' @ Itoa port) = Inr addr \<and>
      netListenTCP os ''tcp'' addr = Inl e2 \<longrightarrow>
        ListenTCP os port
          = (None, 0, Some (Wrapf ''failed to listen to local port over tcp: '' e2)))
   \<and> Error (Wrapf ''failed to build tcp address: '' e1)
        \<noteq> Error (Wrapf ''failed to listen to local port over tcp: '' e2)"
proof -
  have zero: "Itoa 0 = ''0''"
    by (simp add: Itoa_def digitsOf_small digitChar_def)
  show ?thesis
    by (auto simp add: ListenTCP_def zero split: sum.splits)
qed

theorem ListenTCP_reports_bound_port_witness:
  "ResolveTCPAddr ephemeralNet ''tcp'' ''127.0.0.1:0'' = Inr \<lparr>IP = ''127.0.0.1'', Port = 0\<rparr>
   \<and> netListenTCP ephemeralNet ''tcp'' \<lparr>IP = ''127.0.0.1'', Port = 0\<rparr>
       = Inr \<lparr>Addr = \<lparr>IP = ''127.0.0.1'', Port = 49152\<rparr>\<rparr>
   \<and> ListenTCP ephemeralNet 0
       = (Some \<lparr>Addr = \<lparr>IP = ''127.0.0.1'', Port = 49152\<rparr>\<rparr>, 49152, None)"
  using ListenTCP_reports_bound_port
    [of ephemeralNet 0 "\<lparr>Addr = \<lparr>IP = ''127.0.0.1'', Port = 49152\<rparr>\<rparr>" 49152
        "\<lparr>IP = ''127.0.0.1'', Port = 0\<rparr>" "\<lparr>Addr = \<lparr>IP = ''127.0.0.1'', Port = 49152\<rparr>\<rparr>"]
  by (simp add: ephemeralNet_def)

section \<open>The RPC invoker\<close>

text \<open>
  C2. For each remote call that returns an envelope with a success flag and a message
  (starting the SSH server, getting the notebook server, notifying client activity):
  when success is false, the invoker method returns zero values (port 0, the empty
  string) and an error whose text is "failed to <action>: <message>"; when success is
  true, it returns a nil error and the payload, with the port that arrived as text
  parsed: whenever \<^verbatim>\<open>strconv.Atoi\<close> reads the text as the integer \<open>port\<close>, and so in
  particular whenever the text is the decimal writing of an integer \<open>n\<close> that fits
  \<^verbatim>\<open>int\<close>, that integer is the port returned.
\<close>

theorem envelope_translation:
  "(StartRemoteServerAsyncFunc (channel ivk) () = Inr r \<longrightarrow>
      (\<not> Result_ssh r \<longrightarrow>
         (\<exists>err. StartSSHServer parseFailure ivk = (0, '''', Some err) \<and>
                Error err = ''failed to start SSH server: '' @ Message_ssh r)) \<and>
      (Result_ssh r \<and> Atoi (ServerPort r) = Some port \<longrightarrow>
         StartSSHServer parseFailure ivk = (port, User r, None)) \<and>
      (Result_ssh r \<and> - 9223372036854775808 \<le> n \<and> n \<le> 9223372036854775807 \<and>
       ServerPort r = Itoa n \<longrightarrow>
         StartSSHServer parseFailure ivk = (n, User r, None)))
   \<and> (GetRunningServerFunc (channel ivk) () = Inr j \<longrightarrow>
      (\<not> Result_jupyter j \<longrightarrow>
         (\<exists>err. StartJupyterServer parseFailure ivk = (0, '''', Some err) \<and>
                Error err = ''failed to start JupyterLab: '' @ Message_jupyter j)) \<and>
      (Result_jupyter j \<and> Atoi (Port_jupyter j) = Some port \<longrightarrow>
         StartJupyterServer parseFailure ivk = (port, ServerUrl j, None)) \<and>
      (Result_jupyter j \<and> - 9223372036854775808 \<le> n \<and> n \<le> 9223372036854775807 \<and>
       Port_jupyter j = Itoa n \<longrightarrow>
         StartJupyterServer parseFailure ivk = (n, ServerUrl j, None)))
   \<and> (NotifyCodespaceOfClientActivityFunc (channel ivk) [activity] = Inr a \<longrightarrow>
      (\<not> Result_notify a \<longrightarrow>
         (\<exists>err. fst (notifyCodespaceOfClientActivity ivk activity) = Some err \<and>
                Error err = ''failed to notify client activity: '' @ Message_notify a)) \<and>
      (Result_notify a \<longrightarrow> fst (notifyCodespaceOfClientActivity ivk activity) = None))"
proof -
  have roundtrip: "Atoi (Itoa n) = Some n"
    if "- 9223372036854775808 \<le> n" and "n \<le> 9223372036854775807"
    using that by (rule Atoi_Itoa)
  show ?thesis
    using roundtrip
    by (auto simp add: StartSSHServer_def StartJupyterServer_def
        notifyCodespaceOfClientActivity_def Let_def)
qed

theorem envelope_translation_witness:
  "Itoa 1234 = ''1234''
   \<and> StartSSHServer (\<lambda>text. New text) \<lparr>channel = newMockServer\<lparr>StartRemoteServerAsyncFunc :=
         (\<lambda>request. Inr \<lparr>ServerPort = ''1234'', User = ''test'', Message_ssh = '''',
                          Result_ssh = True\<rparr>)\<rparr>\<rparr>
       = (1234, ''test'', None)
   \<and> StartSSHServer (\<lambda>text. New text) \<lparr>channel = newMockServer\<lparr>StartRemoteServerAsyncFunc :=
         (\<lambda>request. Inr \<lparr>ServerPort = ''1234'', User = ''test'',
                          Message_ssh = ''error message'', Result_ssh = False\<rparr>)\<rparr>\<rparr>
       = (0, '''', Some (New ''failed to start SSH server: error message''))
   \<and> StartJupyterServer (\<lambda>text. New text) \<lparr>channel = newMockServer\<lparr>GetRunningServerFunc :=
         (\<lambda>request. Inr \<lparr>Port_jupyter = ''1234'',
                          ServerUrl = ''http://localhost:1234?token=1234'',
                          Message_jupyter = '''', Result_jupyter = True\<rparr>)\<rparr>\<rparr>
       = (1234, ''http://localhost:1234?token=1234'', None)
   \<and> fst (notifyCodespaceOfClientActivity \<lparr>channel = newMockServer\<rparr> ''connected'') = None"
proof -
  have written: "Itoa 1234 = ''1234''"
    by (simp add: Itoa_def digitsOf_small digitsOf_large digitChar_def)
  have ssh: "StartSSHServer (\<lambda>text. New text)
        \<lparr>channel = newMockServer\<lparr>StartRemoteServerAsyncFunc :=
           (\<lambda>request. Inr \<lparr>ServerPort = ''1234'', User = ''test'', Message_ssh = '''',
                            Result_ssh = True\<rparr>)\<rparr>\<rparr>
      = (1234, ''test'', None)"
    using written
      envelope_translation
        [of "\<lparr>channel = newMockServer\<lparr>StartRemoteServerAsyncFunc :=
               (\<lambda>request. Inr \<lparr>ServerPort = ''1234'', User = ''test'', Message_ssh = '''',
                                Result_ssh = True\<rparr>)\<rparr>\<rparr>"
            "\<lparr>ServerPort = ''1234'', User = ''test'', Message_ssh = '''', Result_ssh = True\<rparr>"
            "\<lambda>text. New text" _ 1234]
    by simp
  have jupyter: "StartJupyterServer (\<lambda>text. New text)
        \<lparr>channel = newMockServer\<lparr>GetRunningServerFunc :=
           (\<lambda>request. Inr \<lparr>Port_jupyter = ''1234'',
                            ServerUrl = ''http://localhost:1234?token=1234'',
                            Message_jupyter = '''', Result_jupyter = True\<rparr>)\<rparr>\<rparr>
      = (1234, ''http://localhost:1234?token=1234'', None)"
    using written
      envelope_translation
        [of "\<lparr>channel = newMockServer\<lparr>GetRunningServerFunc :=
               (\<lambda>request. Inr \<lparr>Port_jupyter = ''1234'',
                                ServerUrl = ''http://localhost:1234?token=1234'',
                                Message_jupyter = '''', Result_jupyter = True\<rparr>)\<rparr>\<rparr>"
            _ "\<lambda>text. New text" _ 1234
            "\<lparr>Port_jupyter = ''1234'', ServerUrl = ''http://localhost:1234?token=1234'',
              Message_jupyter = '''', Result_jupyter = True\<rparr>"]
    by simp
  have failed: "StartSSHServer (\<lambda>text. New text)
        \<lparr>channel = newMockServer\<lparr>StartRemoteServerAsyncFunc :=
           (\<lambda>request. Inr \<lparr>ServerPort = ''1234'', User = ''test'',
                            Message_ssh = ''error message'', Result_ssh = False\<rparr>)\<rparr>\<rparr>
      = (0, '''', Some (New ''failed to start SSH server: error message''))"
    by (simp add: StartSSHServer_def)
  have notified: "fst (notifyCodespaceOfClientActivity \<lparr>channel = newMockServer\<rparr>
        ''connected'') = None"
    using envelope_translation
        [of "\<lparr>channel = newMockServer\<rparr>" _ _ _ _ _ "''connected''"
            "\<lparr>Message_notify = '''', Result_notify = True\<rparr>"]
    by (simp add: newMockServer_def)
  from written ssh failed jupyter notified show ?thesis
    by simp
qed

text \<open>
  C8. When the remote rebuild call returns an envelope whose flag is false,
  \<^verbatim>\<open>RebuildContainer\<close> returns an error whose text is "couldn't rebuild codespace"; when
  the flag is true it returns nil. Both hold for an incremental rebuild and for a full
  one.
\<close>

theorem RebuildContainer_result:
  "(RebuildContainerAsyncFunc (channel ivk) full = Inr r \<and> \<not> RebuildContainer_resp r \<longrightarrow>
      (\<exists>err. RebuildContainer ivk full = Some err \<and> Error err = ''couldn't rebuild codespace''))
   \<and> (RebuildContainerAsyncFunc (channel ivk) full = Inr r \<and> RebuildContainer_resp r \<longrightarrow>
      RebuildContainer ivk full = None)"
  by (simp add: RebuildContainer_def)

theorem RebuildContainer_result_witness:
  "RebuildContainer \<lparr>channel = newMockServer\<lparr>RebuildContainerAsyncFunc :=
       (\<lambda>request. Inr \<lparr>RebuildContainer_resp = False\<rparr>)\<rparr>\<rparr> True
     = Some (New ''couldn't rebuild codespace'')
   \<and> RebuildContainer \<lparr>channel = newMockServer\<lparr>RebuildContainerAsyncFunc :=
       (\<lambda>request. Inr \<lparr>RebuildContainer_resp = True\<rparr>)\<rparr>\<rparr> False = None
   \<and> RebuildContainer \<lparr>channel = newMockServer\<lparr>RebuildContainerAsyncFunc :=
       (\<lambda>request. Inr \<lparr>RebuildContainer_resp = True\<rparr>)\<rparr>\<rparr> True = None"
  using
    RebuildContainer_result
      [of "\<lparr>channel = newMockServer\<lparr>RebuildContainerAsyncFunc :=
             (\<lambda>request. Inr \<lparr>RebuildContainer_resp = False\<rparr>)\<rparr>\<rparr>" True
          "\<lparr>RebuildContainer_resp = False\<rparr>"]
    RebuildContainer_result
      [of "\<lparr>channel = newMockServer\<lparr>RebuildContainerAsyncFunc :=
             (\<lambda>request. Inr \<lparr>RebuildContainer_resp = True\<rparr>)\<rparr>\<rparr>" False
          "\<lparr>RebuildContainer_resp = True\<rparr>"]
    RebuildContainer_result
      [of "\<lparr>channel = newMockServer\<lparr>RebuildContainerAsyncFunc :=
             (\<lambda>request. Inr \<lparr>RebuildContainer_resp = True\<rparr>)\<rparr>\<rparr>" True
          "\<lparr>RebuildContainer_resp = True\<rparr>"]
  by (simp add: RebuildContainer_def)

text \<open>
  C9. Constructing an invoker over a usable channel sends the server one
  client-activity request whose activity is the connected event, and returns the
  invoker whatever the server answers to that request: an error of the transport, an
  envelope with success false, or success. The test's check of the recorded calls
  passes on a server that had no calls before. What \<^verbatim>\<open>StartSSHServer\<close>,
  \<^verbatim>\<open>StartJupyterServer\<close> and \<^verbatim>\<open>RebuildContainer\<close> return through the invoker does not
  depend on the answer to the notification.
\<close>

theorem connected_notification_is_best_effort:
  "CreateInvoker (Inr (server\<lparr>NotifyCodespaceOfClientActivityFunc := answer\<rparr>))
     = Inr \<lparr>channel = server\<lparr>NotifyCodespaceOfClientActivityFunc := answer,
              NotifyCodespaceOfClientActivityCalls :=
                NotifyCodespaceOfClientActivityCalls server @ [[connectedEventName]]\<rparr>\<rparr>
   \<and> verifyNotifyCodespaceOfClientActivity
       (server\<lparr>NotifyCodespaceOfClientActivityFunc := answer,
               NotifyCodespaceOfClientActivityCalls := [[connectedEventName]]\<rparr>)
   \<and> StartSSHServer parseFailure
       \<lparr>channel = server\<lparr>NotifyCodespaceOfClientActivityFunc := answer,
              NotifyCodespaceOfClientActivityCalls :=
                NotifyCodespaceOfClientActivityCalls server @ [[connectedEventName]]\<rparr>\<rparr>
     = StartSSHServer parseFailure \<lparr>channel = server\<rparr>
   \<and> StartJupyterServer parseFailure
       \<lparr>channel = server\<lparr>NotifyCodespaceOfClientActivityFunc := answer,
              NotifyCodespaceOfClientActivityCalls :=
                NotifyCodespaceOfClientActivityCalls server @ [[connectedEventName]]\<rparr>\<rparr>
     = StartJupyterServer parseFailure \<lparr>channel = server\<rparr>
   \<and> RebuildContainer
       \<lparr>channel = server\<lparr>NotifyCodespaceOfClientActivityFunc := answer,
              NotifyCodespaceOfClientActivityCalls :=
                NotifyCodespaceOfClientActivityCalls server @ [[connectedEventName]]\<rparr>\<rparr> full
     = RebuildContainer \<lparr>channel = server\<rparr> full"
  by (simp add: CreateInvoker_def notifyCodespaceOfClientActivity_def Let_def
      verifyNotifyCodespaceOfClientActivity_def StartSSHServer_def StartJupyterServer_def
      RebuildContainer_def)

end
